theory Spec2Isabelle
  imports Main "HOL-Library.Sublist" "HOL-Library.Char_ord" "HOL-Library.List_Lexorder"
begin

section \<open>Strings: the library functions the stream reader calls\<close>

text \<open>
  Go strings are byte sequences; they are modelled as \<^typ>\<open>string\<close>.
  \<^verbatim>\<open>strings.Contains(s, substr)\<close> is \<^verbatim>\<open>strings.Index(s, substr) >= 0\<close>, and
  \<^verbatim>\<open>Index\<close> is the position of the first occurrence of \<^verbatim>\<open>substr\<close> in \<^verbatim>\<open>s\<close>,
  or \<open>-1\<close>.
\<close>

fun HasPrefix :: "string \<Rightarrow> string \<Rightarrow> bool" where
  "HasPrefix s [] = True"
| "HasPrefix [] (c # cs) = False"
| "HasPrefix (x # xs) (c # cs) = (x = c \<and> HasPrefix xs cs)"

fun IndexFrom :: "int \<Rightarrow> string \<Rightarrow> string \<Rightarrow> int" where
  "IndexFrom i [] substr = (if HasPrefix [] substr then i else -1)"
| "IndexFrom i (x # xs) substr =
     (if HasPrefix (x # xs) substr then i else IndexFrom (i + 1) xs substr)"

definition Index :: "string \<Rightarrow> string \<Rightarrow> int" where
  "Index s substr = IndexFrom 0 s substr"

definition Contains :: "string \<Rightarrow> string \<Rightarrow> bool" where
  "Contains s substr = (Index s substr \<ge> 0)"

text \<open>
  \<^verbatim>\<open>strings.ToLower\<close> maps a string through the Unicode case tables of the Go
  runtime, which are not part of the repository. The reader is therefore modelled
  over an arbitrary lower-casing function \<open>lower\<close>. On ASCII-only strings
  \<^verbatim>\<open>strings.ToLower\<close> is the byte-wise map below, which is what the concrete
  scenarios use.
\<close>

definition asciiLowerChar :: "char \<Rightarrow> char" where
  "asciiLowerChar c =
     (if CHR ''A'' \<le> c \<and> c \<le> CHR ''Z'' then char_of (of_char c + (32::nat)) else c)"

definition asciiToLower :: "string \<Rightarrow> string" where
  "asciiToLower s = map asciiLowerChar s"

text \<open>\<^verbatim>\<open>strings.Join(elems, sep)\<close>.\<close>

fun Join :: "string list \<Rightarrow> string \<Rightarrow> string" where
  "Join [] sep = []"
| "Join [e] sep = e"
| "Join (e # f # es) sep = e @ sep @ Join (f # es) sep"

section \<open>The matching loop of \<^verbatim>\<open>readFromTwitter\<close>\<close>

text \<open>
  Lines 138--146 of \<^verbatim>\<open>twitter.go\<close>: for one decoded tweet, range over the options
  in order and send every option whose lower-cased form is contained in the
  lower-cased text on the votes channel. The third argument is the sequence of
  values sent on the channel so far.
\<close>

fun rangeOptions :: "(string \<Rightarrow> string) \<Rightarrow> string \<Rightarrow> string list \<Rightarrow> string list \<Rightarrow> string list" where
  "rangeOptions lower text [] votes = votes"
| "rangeOptions lower text (option # rest) votes =
     (if Contains (lower text) (lower option)
      then rangeOptions lower text rest (votes @ [option])
      else rangeOptions lower text rest votes)"

text \<open>The specification's reading: the term occurs, ignoring case, inside the text.\<close>

definition occursIn :: "(string \<Rightarrow> string) \<Rightarrow> string \<Rightarrow> string \<Rightarrow> bool" where
  "occursIn lower text t = (\<exists>pre post. lower text = pre @ lower t @ post)"

section \<open>The connection lifecycle manager: \<^verbatim>\<open>dial\<close> and \<^verbatim>\<open>closeConn\<close>\<close>

text \<open>
  The package-level variables \<^verbatim>\<open>conn\<close> (a \<^verbatim>\<open>net.Conn\<close>) and \<^verbatim>\<open>reader\<close> (an
  \<^verbatim>\<open>io.ReadCloser\<close>) are interface values: \<open>None\<close> is \<^verbatim>\<open>nil\<close>, \<open>Some k\<close> is the
  object numbered \<open>k\<close>. The field \<open>closeCalls\<close> records every \<^verbatim>\<open>Close()\<close> call made
  on a connection or on a response body, in order. Calling a method on a
  \<^verbatim>\<open>nil\<close> interface value panics; a Go error is a message.
\<close>

type_synonym err = string

datatype panic = NilDereference | SendOnClosedChannel

datatype handle = Conn nat | RespBody nat

record manager =
  conn :: "nat option"
  reader :: "nat option"
  closeCalls :: "handle list"

text \<open>
  \<^verbatim>\<open>c.Close()\<close> on a \<^verbatim>\<open>net.Conn\<close> and on an \<^verbatim>\<open>io.ReadCloser\<close>: the call is
  recorded; it returns an error when the object was closed before.
\<close>

definition conn_Close :: "nat option \<Rightarrow> manager \<Rightarrow> panic + (err option \<times> manager)" where
  "conn_Close c m =
     (case c of
        None \<Rightarrow> Inl NilDereference
      | Some k \<Rightarrow>
          Inr (if Conn k \<in> set (closeCalls m) then Some ''use of closed network connection'' else None,
               m\<lparr>closeCalls := closeCalls m @ [Conn k]\<rparr>))"

definition reader_Close :: "nat option \<Rightarrow> manager \<Rightarrow> panic + (err option \<times> manager)" where
  "reader_Close r m =
     (case r of
        None \<Rightarrow> Inl NilDereference
      | Some k \<Rightarrow>
          Inr (if RespBody k \<in> set (closeCalls m) then Some ''http: read on closed response body'' else None,
               m\<lparr>closeCalls := closeCalls m @ [RespBody k]\<rparr>))"

text \<open>
  \<^verbatim>\<open>closeConn\<close>, lines 55--62. Both \<^verbatim>\<open>Close\<close> results are discarded; neither
  variable is reset.
\<close>

definition closeConn :: "manager \<Rightarrow> panic + manager" where
  "closeConn m =
     (case (if conn m \<noteq> None
            then (case conn_Close (conn m) m of Inl p \<Rightarrow> Inl p | Inr (e, m1) \<Rightarrow> Inr m1)
            else Inr m) of
        Inl p \<Rightarrow> Inl p
      | Inr m1 \<Rightarrow>
          (if reader m1 \<noteq> None
           then (case reader_Close (reader m1) m1 of Inl p \<Rightarrow> Inl p | Inr (e, m2) \<Rightarrow> Inr m2)
           else Inr m1))"

text \<open>
  \<^verbatim>\<open>dial\<close>, lines 33--44, in two parts around the blocking call
  \<^verbatim>\<open>net.DialTimeout\<close>: \<open>dialBegin\<close> is lines 34--37, \<open>dialEnd\<close> is lines 39--43 applied
  to the outcome of the connection attempt (\<open>Inl\<close> an error, \<open>Inr\<close> the new
  connection). The result of \<^verbatim>\<open>dial\<close> is the pair of its two return values.
\<close>

definition dialBegin :: "manager \<Rightarrow> panic + manager" where
  "dialBegin m =
     (if conn m \<noteq> None
      then (case conn_Close (conn m) m of
              Inl p \<Rightarrow> Inl p
            | Inr (e, m1) \<Rightarrow> Inr (m1\<lparr>conn := None\<rparr>))
      else Inr m)"

definition dialEnd :: "err + nat \<Rightarrow> manager \<Rightarrow> (nat option \<times> err option) \<times> manager" where
  "dialEnd attempt m =
     (case attempt of
        Inl e \<Rightarrow> ((None, Some e), m)
      | Inr netc \<Rightarrow> ((Some netc, None), m\<lparr>conn := Some netc\<rparr>))"

definition dial :: "err + nat \<Rightarrow> manager \<Rightarrow> panic + ((nat option \<times> err option) \<times> manager)" where
  "dial attempt m =
     (case dialBegin m of
        Inl p \<Rightarrow> Inl p
      | Inr m1 \<Rightarrow> Inr (dialEnd attempt m1))"

text \<open>The connections among a sequence of \<^verbatim>\<open>Close\<close> calls.\<close>

fun connsOf :: "handle list \<Rightarrow> nat list" where
  "connsOf [] = []"
| "connsOf (Conn k # hs) = k # connsOf hs"
| "connsOf (RespBody k # hs) = connsOf hs"

section \<open>The outbound request: \<^verbatim>\<open>readFromTwitter\<close> lines 93--115 and \<^verbatim>\<open>makeRequest\<close>\<close>

text \<open>
  \<^verbatim>\<open>loadOptions\<close> (\<^verbatim>\<open>main.go\<close>, lines 41--55): the iterator yields the polls of the
  collection and, at the end, its error; the options of every poll are appended in
  order, and both the slice and the error are returned.
\<close>

record poll =
  Options :: "string list"

fun appendOptions :: "poll list \<Rightarrow> string list \<Rightarrow> string list" where
  "appendOptions [] options = options"
| "appendOptions (p # ps) options = appendOptions ps (options @ Options p)"

definition loadOptions :: "poll list \<Rightarrow> err option \<Rightarrow> string list \<times> err option" where
  "loadOptions polls iterErr = (appendOptions polls [], iterErr)"

text \<open>
  \<^verbatim>\<open>url.Values\<close> maps a key to a list of values; it is kept as an association
  list. \<^verbatim>\<open>Set\<close> replaces the values of a key by a single one. \<^verbatim>\<open>Encode\<close> writes
  \<open>key=value\<close> pairs joined by \<open>&\<close>, sorted by key, both sides escaped by
  \<^verbatim>\<open>url.QueryEscape\<close>: letters, digits and \<open>- _ . ~\<close> stay, a space becomes \<open>+\<close>,
  every other byte becomes \<open>%XX\<close> in upper-case hexadecimal.
\<close>

type_synonym urlValues = "(string \<times> string list) list"

fun Values_Set :: "string \<Rightarrow> string \<Rightarrow> urlValues \<Rightarrow> urlValues" where
  "Values_Set k v [] = [(k, [v])]"
| "Values_Set k v ((k', vs) # q) =
     (if k = k' then (k, [v]) # q else (k', vs) # Values_Set k v q)"

definition shouldEscape :: "char \<Rightarrow> bool" where
  "shouldEscape c =
     (\<not> ((CHR ''a'' \<le> c \<and> c \<le> CHR ''z'') \<or> (CHR ''A'' \<le> c \<and> c \<le> CHR ''Z'')
         \<or> (CHR ''0'' \<le> c \<and> c \<le> CHR ''9'') \<or> c \<in> set ''-_.~''))"

definition upperhex :: string where
  "upperhex = ''0123456789ABCDEF''"

definition escapeByte :: "char \<Rightarrow> string" where
  "escapeByte c =
     (if shouldEscape c
      then (if c = CHR '' '' then ''+''
            else [CHR ''%'', upperhex ! ((of_char c :: nat) div 16), upperhex ! ((of_char c :: nat) mod 16)])
      else [c])"

definition QueryEscape :: "string \<Rightarrow> string" where
  "QueryEscape s = concat (map escapeByte s)"

definition Encode :: "urlValues \<Rightarrow> string" where
  "Encode q =
     Join (concat (map (\<lambda>(k, vs). map (\<lambda>v. QueryEscape k @ ''='' @ QueryEscape v) vs)
                       (sort_key fst q))) ''&''"

text \<open>\<^verbatim>\<open>strconv.Itoa\<close> on a length, which is never negative.\<close>

fun Itoa :: "nat \<Rightarrow> string" where
  "Itoa n = (if n < 10 then [char_of (48 + n)] else Itoa (n div 10) @ [char_of (48 + n mod 10)])"

text \<open>
  An \<^verbatim>\<open>http.Request\<close>, as far as the reader sets it. \<^verbatim>\<open>Header.Set\<close> replaces the
  values of a key; the three keys set by \<^verbatim>\<open>makeRequest\<close> are in canonical form
  already.
\<close>

record request =
  Method :: string
  URL :: string
  Header :: urlValues
  Body :: string

record credentials =
  Token :: string
  Secret :: string

text \<open>
  Two library functions are parameters of the model: \<^verbatim>\<open>strings.ToLower\<close> and the
  signer \<^verbatim>\<open>(*oauth.Client).AuthorizationHeader\<close>, applied to the client's
  credentials, the token credentials, the method, the URL and the form; its last
  argument stands for the nonce and the clock it reads.
\<close>

record extern =
  ToLower :: "string \<Rightarrow> string"
  AuthorizationHeader :: "credentials \<Rightarrow> credentials \<Rightarrow> string \<Rightarrow> string \<Rightarrow> urlValues \<Rightarrow> string \<Rightarrow> string"

definition endpoint :: string where
  "endpoint = ''https://stream.twitter.com/1.1/statuses/filter.json''"

text \<open>
  Lines 107--108 and line 111. The URL is a constant that parses and \<^verbatim>\<open>POST\<close> is a
  valid method, so the two error returns of lines 101--104 and 112--115 are never
  taken.
\<close>

definition buildQuery :: "string list \<Rightarrow> urlValues" where
  "buildQuery options = Values_Set ''track'' (Join options '','') []"

definition newRequest :: "string list \<Rightarrow> request" where
  "newRequest options =
     \<lparr>Method = ''POST'', URL = endpoint, Header = [], Body = Encode (buildQuery options)\<rparr>"

text \<open>Lines 161--164 of \<^verbatim>\<open>makeRequest\<close>: the three headers.\<close>

definition setHeaders :: "extern \<Rightarrow> credentials \<Rightarrow> credentials \<Rightarrow> string \<Rightarrow> request \<Rightarrow> urlValues \<Rightarrow> request" where
  "setHeaders X client tok nonce req params =
     (let formEnc = Encode params;
          h1 = Values_Set ''Content-Type'' ''application/x-www-form-urlencoded'' (Header req);
          h2 = Values_Set ''Content-Length'' (Itoa (length formEnc)) h1;
          h3 = Values_Set ''Authorization''
                 (AuthorizationHeader X client tok ''POST'' (URL req) params nonce) h2
      in req\<lparr>Header := h3\<rparr>)"

text \<open>
  \<^verbatim>\<open>setupTwitterAuth\<close>, lines 64--87. \<^verbatim>\<open>envdecode.Decode\<close> reads the four variables
  with \<^verbatim>\<open>os.Getenv\<close>, in the order of the fields; a required variable that is unset
  or empty is an error. The result is \<open>Inl\<close> the error passed to \<^verbatim>\<open>log.Fatalln\<close>, or
  the values assigned to \<^verbatim>\<open>authClient\<close> (its \<^verbatim>\<open>Credentials\<close>) and to \<^verbatim>\<open>creds\<close>.
\<close>

record ts =
  ConsumerKey :: string
  ConsumerSecret :: string
  AccessToken :: string
  AccessSecret :: string

definition Getenv :: "(string \<times> string) list \<Rightarrow> string \<Rightarrow> string" where
  "Getenv environ k = (case map_of environ k of None \<Rightarrow> [] | Some v \<Rightarrow> v)"

definition missing :: "string \<Rightarrow> err" where
  "missing k = ''the environment variable '' @ k @ '' is missing''"

definition envdecode_Decode :: "(string \<times> string) list \<Rightarrow> err + ts" where
  "envdecode_Decode environ =
     (if Getenv environ ''TWITTER_KEY'' = [] then Inl (missing ''TWITTER_KEY'')
      else if Getenv environ ''TWITTER_SECRET'' = [] then Inl (missing ''TWITTER_SECRET'')
      else if Getenv environ ''TWITTER_ACCESS_TOKEN'' = [] then Inl (missing ''TWITTER_ACCESS_TOKEN'')
      else if Getenv environ ''TWITTER_ACCESS_SECRET'' = [] then Inl (missing ''TWITTER_ACCESS_SECRET'')
      else Inr \<lparr>ConsumerKey = Getenv environ ''TWITTER_KEY'',
                ConsumerSecret = Getenv environ ''TWITTER_SECRET'',
                AccessToken = Getenv environ ''TWITTER_ACCESS_TOKEN'',
                AccessSecret = Getenv environ ''TWITTER_ACCESS_SECRET''\<rparr>)"

definition setupTwitterAuth :: "(string \<times> string) list \<Rightarrow> err + (credentials \<times> credentials)" where
  "setupTwitterAuth environ =
     (case envdecode_Decode environ of
        Inl e \<Rightarrow> Inl e
      | Inr t \<Rightarrow>
          Inr (\<lparr>Token = ConsumerKey t, Secret = ConsumerSecret t\<rparr>,
               \<lparr>Token = AccessToken t, Secret = AccessSecret t\<rparr>))"

section \<open>The running program: \<^verbatim>\<open>main\<close>, its goroutines and their channels\<close>

text \<open>
  The program is a transition system. A state holds the package-level variables
  of \<^verbatim>\<open>twitter.go\<close>, the variables of \<^verbatim>\<open>main\<close> that its closures share, the
  channels, and for \<^verbatim>\<open>main\<close> and each goroutine the statement it is at, together
  with its local variables. Each action is one statement, or a run of statements
  with at most one effect that another goroutine can observe; an action that
  reads the outside world carries what was read. A blocked statement has no
  transition. The two critical sections of \<open>stoplock\<close> contain no blocking
  statement and are one action each.

  Buffered channels of \<^verbatim>\<open>struct{}\<close> and of signals are the number of elements
  queued (capacity one). The channel \<^verbatim>\<open>votes\<close> is unbuffered: a send and a receive
  happen together.
\<close>

datatype task = Listener | Publisher | StreamReader | Refresher

datatype outcome = Running | Returned | FatalExit | Panicked panic | Killed

text \<open>What a run leaves behind, besides the log: its observable steps in order.\<close>

datatype event =
    Go task
  | StopSet
  | StopNotified
  | ForceClose task
  | TimerFired
  | Loaded "string list"
  | AuthSetup "err option"
  | Request request
  | Matched string
  | Sent string
  | Published string "err option"
  | ReaderStopped
  | MainSawReaderStopped
  | VotesClosed
  | PublisherStopped
  | MainSawPublisherStopped

datatype mainPc =
    MGoListener | MNotify | MDialDb | MPublishVotes | MStartStream | MGoRefresher
  | MWaitTwitter | MCloseVotes | MWaitPublisher | MDeferred | MReturned

datatype listenerPc = LNotStarted | LWaitSignal | LLock | LSend | LClose | LDone

datatype refresherPc = FNotStarted | FSleep | FClose | FCheck | FDone

datatype publisherPc = PNotStarted | PRange | PPublish string | PStopping | PSignal | PDone

text \<open>
  The stream reader's locals: \<open>options\<close>, the request and the query, the body of the
  response (the local \<^verbatim>\<open>reader\<close> of line 125), and, while it is blocked in the send
  of line 144, the matching options of the current tweet that are still to be sent.
\<close>

datatype readerPc =
    RNotStarted
  | RSelect
  | RLoad
  | RMakeRequest "string list" request urlValues
  | RDo "string list"
  | RDial "string list"
  | RDecode "string list" nat
  | RSend "string list" nat "string list"
  | RSleep
  | RDeferred
  | RDone

record sys =
  mgr :: manager
  authSetUpOnce :: bool
  authClient :: "credentials option"
  creds :: "credentials option"
  stop :: bool
  notified :: bool
  signalChan :: nat
  stopChan :: nat
  votesClosed :: bool
  twitterStoppedChan :: nat
  publisherStoppedChan :: nat
  pub :: bool
  mainPc :: mainPc
  listenerPc :: listenerPc
  refresherPc :: refresherPc
  publisherPc :: publisherPc
  readerPc :: readerPc
  outcome :: outcome
  history :: "event list"
  logged :: "string list"

definition init :: sys where
  "init =
     \<lparr>mgr = \<lparr>conn = None, reader = None, closeCalls = []\<rparr>,
      authSetUpOnce = False, authClient = None, creds = None,
      stop = False, notified = False, signalChan = 0, stopChan = 0, votesClosed = False,
      twitterStoppedChan = 0, publisherStoppedChan = 0, pub = False,
      mainPc = MGoListener, listenerPc = LNotStarted, refresherPc = FNotStarted,
      publisherPc = PNotStarted, readerPc = RNotStarted,
      outcome = Running, history = [], logged = []\<rparr>"

datatype action =
    MainGoListener
  | MainSignalNotify
  | MainDialDb "err option"
  | MainPublishVotes "err option"
  | MainStartTwitterStream
  | MainGoRefresher
  | MainRecvTwitterStopped
  | MainCloseVotes
  | MainRecvPublisherStopped
  | MainReturn
  | OsSignal
  | ListenerRecvSignal
  | ListenerSetStop
  | ListenerSendStop
  | ListenerCloseConn
  | RefresherWake
  | RefresherCloseConn
  | RefresherCheckStop
  | ReaderSelectStop
  | ReaderSelectDefault
  | ReaderSendStopped
  | ReaderLoadOptions "poll list" "err option"
  | ReaderAuthOnce "(string \<times> string) list" string
  | ReaderDialBegin
  | ReaderDialEnd "err + nat"
  | ReaderResponse "err + nat"
  | ReaderDecode "err + string"
  | VoteHandover
  | ReaderSendOnClosed
  | ReaderSleepDone
  | PublisherPublish "err option"
  | PublisherRangeEnd
  | PublisherStop
  | PublisherSendStopped

definition emit :: "event \<Rightarrow> sys \<Rightarrow> sys" where
  "emit e s = s\<lparr>history := history s @ [e]\<rparr>"

definition say :: "string \<Rightarrow> sys \<Rightarrow> sys" where
  "say l s = s\<lparr>logged := logged s @ [l]\<rparr>"

text \<open>A call of \<^verbatim>\<open>closeConn()\<close> by a goroutine.\<close>

definition forceClose :: "task \<Rightarrow> sys \<Rightarrow> sys" where
  "forceClose t s =
     (case closeConn (mgr s) of
        Inl p \<Rightarrow> s\<lparr>outcome := Panicked p\<rparr>
      | Inr m \<Rightarrow> emit (ForceClose t) (s\<lparr>mgr := m\<rparr>))"

text \<open>
  Lines 161--165 of \<^verbatim>\<open>makeRequest\<close>, after the \<^verbatim>\<open>sync.Once\<close>: the headers are set
  from \<^verbatim>\<open>authClient\<close> and \<^verbatim>\<open>creds\<close>, and the request is handed to the client.
\<close>

definition doRequest :: "extern \<Rightarrow> string \<Rightarrow> string list \<Rightarrow> request \<Rightarrow> urlValues \<Rightarrow> sys \<Rightarrow> sys" where
  "doRequest X nonce options req query s =
     (case (authClient s, creds s) of
        (Some c, Some t) \<Rightarrow>
          emit (Request (setHeaders X c t nonce req query)) (s\<lparr>readerPc := RDo options\<rparr>)
      | _ \<Rightarrow> s\<lparr>outcome := Panicked NilDereference\<rparr>)"

text \<open>
  The inner loop of lines 138--146 comes to its next send, where it logs the vote
  and blocks, or to its end, where the reader decodes the next tweet.
\<close>

definition nextSend :: "string list \<Rightarrow> nat \<Rightarrow> string list \<Rightarrow> sys \<Rightarrow> sys" where
  "nextSend options body vs s =
     (case vs of
        [] \<Rightarrow> s\<lparr>readerPc := RDecode options body\<rparr>
      | v # rest \<Rightarrow> (say (''vote: '' @ v) s)\<lparr>readerPc := RSend options body vs\<rparr>)"

text \<open>\<^verbatim>\<open>readFromTwitter\<close> returns: lines 184--185 of the outer loop.\<close>

definition returnToLoop :: "sys \<Rightarrow> sys" where
  "returnToLoop s = (say '' (waiting)'' s)\<lparr>readerPc := RSleep\<rparr>"

fun act :: "extern \<Rightarrow> action \<Rightarrow> sys \<Rightarrow> sys option" where
  "act X MainGoListener s =
     (if mainPc s = MGoListener
      then Some (emit (Go Listener) (s\<lparr>mainPc := MNotify, listenerPc := LWaitSignal\<rparr>))
      else None)"
| "act X MainSignalNotify s =
     (if mainPc s = MNotify then Some (s\<lparr>mainPc := MDialDb, notified := True\<rparr>) else None)"
| "act X (MainDialDb r) s =
     (if mainPc s = MDialDb
      then (case r of
              None \<Rightarrow> Some ((say ''dialing mongodb: localhost'' s)\<lparr>mainPc := MPublishVotes\<rparr>)
            | Some e \<Rightarrow>
                Some ((say (''failed to dial MongoDB: '' @ e) (say ''dialing mongodb: localhost'' s))
                        \<lparr>outcome := FatalExit\<rparr>))
      else None)"
| "act X (MainPublishVotes r) s =
     (if mainPc s = MPublishVotes
      then Some (emit (Go Publisher)
                  ((case r of None \<Rightarrow> s\<lparr>pub := True\<rparr> | Some e \<Rightarrow> say e (s\<lparr>pub := False\<rparr>))
                     \<lparr>mainPc := MStartStream, publisherPc := PRange\<rparr>))
      else None)"
| "act X MainStartTwitterStream s =
     (if mainPc s = MStartStream
      then Some (emit (Go StreamReader) (s\<lparr>mainPc := MGoRefresher, readerPc := RSelect\<rparr>))
      else None)"
| "act X MainGoRefresher s =
     (if mainPc s = MGoRefresher
      then Some (emit (Go Refresher) (s\<lparr>mainPc := MWaitTwitter, refresherPc := FSleep\<rparr>))
      else None)"
| "act X MainRecvTwitterStopped s =
     (if mainPc s = MWaitTwitter \<and> 0 < twitterStoppedChan s
      then Some (emit MainSawReaderStopped
                  (s\<lparr>mainPc := MCloseVotes, twitterStoppedChan := twitterStoppedChan s - 1\<rparr>))
      else None)"
| "act X MainCloseVotes s =
     (if mainPc s = MCloseVotes
      then Some (emit VotesClosed (s\<lparr>mainPc := MWaitPublisher, votesClosed := True\<rparr>))
      else None)"
| "act X MainRecvPublisherStopped s =
     (if mainPc s = MWaitPublisher \<and> 0 < publisherStoppedChan s
      then Some (emit MainSawPublisherStopped
                  (s\<lparr>mainPc := MDeferred, publisherStoppedChan := publisherStoppedChan s - 1\<rparr>))
      else None)"
| "act X MainReturn s =
     (if mainPc s = MDeferred
      then Some ((say ''closed database connection'' s)\<lparr>mainPc := MReturned, outcome := Returned\<rparr>)
      else None)"
| "act X OsSignal s =
     (if \<not> notified s then Some (s\<lparr>outcome := Killed\<rparr>)
      else if signalChan s = 0 then Some (s\<lparr>signalChan := 1\<rparr>)
      else Some s)"
| "act X ListenerRecvSignal s =
     (if listenerPc s = LWaitSignal \<and> 0 < signalChan s
      then Some (s\<lparr>listenerPc := LLock, signalChan := signalChan s - 1\<rparr>)
      else None)"
| "act X ListenerSetStop s =
     (if listenerPc s = LLock
      then Some (say ''Stopping...'' (emit StopSet (s\<lparr>listenerPc := LSend, stop := True\<rparr>)))
      else None)"
| "act X ListenerSendStop s =
     (if listenerPc s = LSend \<and> stopChan s = 0
      then Some (emit StopNotified (s\<lparr>listenerPc := LClose, stopChan := 1\<rparr>))
      else None)"
| "act X ListenerCloseConn s =
     (if listenerPc s = LClose
      then Some (forceClose Listener (s\<lparr>listenerPc := LDone\<rparr>))
      else None)"
| "act X RefresherWake s =
     (if refresherPc s = FSleep
      then Some (emit TimerFired (s\<lparr>refresherPc := FClose\<rparr>))
      else None)"
| "act X RefresherCloseConn s =
     (if refresherPc s = FClose
      then Some (forceClose Refresher (s\<lparr>refresherPc := FCheck\<rparr>))
      else None)"
| "act X RefresherCheckStop s =
     (if refresherPc s = FCheck
      then Some (if stop s then s\<lparr>refresherPc := FDone\<rparr> else s\<lparr>refresherPc := FSleep\<rparr>)
      else None)"
| "act X ReaderSelectStop s =
     (if readerPc s = RSelect \<and> 0 < stopChan s
      then Some (say ''Stopping Twitter...'' (s\<lparr>readerPc := RDeferred, stopChan := stopChan s - 1\<rparr>))
      else None)"
| "act X ReaderSelectDefault s =
     (if readerPc s = RSelect \<and> stopChan s = 0
      then Some (say ''Querying Twitter...'' (s\<lparr>readerPc := RLoad\<rparr>))
      else None)"
| "act X ReaderSendStopped s =
     (if readerPc s = RDeferred \<and> twitterStoppedChan s = 0
      then Some (emit ReaderStopped (s\<lparr>readerPc := RDone, twitterStoppedChan := 1\<rparr>))
      else None)"
| "act X (ReaderLoadOptions polls iterErr) s =
     (if readerPc s = RLoad
      then (case loadOptions polls iterErr of
              (options, Some e) \<Rightarrow> Some (returnToLoop (say (''Failed to load options: '' @ e) s))
            | (options, None) \<Rightarrow>
                Some (emit (Loaded options)
                       (s\<lparr>readerPc := RMakeRequest options (newRequest options) (buildQuery options)\<rparr>)))
      else None)"
| "act X (ReaderAuthOnce environ nonce) s =
     (case readerPc s of
        RMakeRequest options req query \<Rightarrow>
          (if authSetUpOnce s then Some (doRequest X nonce options req query s)
           else (case setupTwitterAuth environ of
                   Inl e \<Rightarrow> Some ((emit (AuthSetup (Some e)) (say e s))\<lparr>outcome := FatalExit\<rparr>)
                 | Inr (c, t) \<Rightarrow>
                     Some (doRequest X nonce options req query
                            ((emit (AuthSetup None) s)
                               \<lparr>authSetUpOnce := True, authClient := Some c, creds := Some t\<rparr>))))
      | _ \<Rightarrow> None)"
| "act X ReaderDialBegin s =
     (case readerPc s of
        RDo options \<Rightarrow>
          (case dialBegin (mgr s) of
             Inl p \<Rightarrow> Some (s\<lparr>outcome := Panicked p\<rparr>)
           | Inr m \<Rightarrow> Some (s\<lparr>mgr := m, readerPc := RDial options\<rparr>))
      | _ \<Rightarrow> None)"
| "act X (ReaderDialEnd attempt) s =
     (case readerPc s of
        RDial options \<Rightarrow> Some (s\<lparr>mgr := snd (dialEnd attempt (mgr s)), readerPc := RDo options\<rparr>)
      | _ \<Rightarrow> None)"
| "act X (ReaderResponse r) s =
     (case readerPc s of
        RDo options \<Rightarrow>
          (case r of
             Inl e \<Rightarrow> Some (returnToLoop (say (''making request failed: '' @ e) s))
           | Inr body \<Rightarrow> Some (s\<lparr>readerPc := RDecode options body\<rparr>))
      | _ \<Rightarrow> None)"
| "act X (ReaderDecode r) s =
     (case readerPc s of
        RDecode options body \<Rightarrow>
          (case r of
             Inl e \<Rightarrow> Some (returnToLoop s)
           | Inr text \<Rightarrow>
               (let vs = rangeOptions (ToLower X) text options []
                in Some (nextSend options body vs (s\<lparr>history := history s @ map Matched vs\<rparr>))))
      | _ \<Rightarrow> None)"
| "act X VoteHandover s =
     (case readerPc s of
        RSend options body vs \<Rightarrow>
          (case vs of
             [] \<Rightarrow> None
           | v # rest \<Rightarrow>
               (if publisherPc s = PRange \<and> \<not> votesClosed s
                then Some (nextSend options body rest (emit (Sent v) (s\<lparr>publisherPc := PPublish v\<rparr>)))
                else None))
      | _ \<Rightarrow> None)"
| "act X ReaderSendOnClosed s =
     (case readerPc s of
        RSend options body vs \<Rightarrow>
          (if votesClosed s then Some (s\<lparr>outcome := Panicked SendOnClosedChannel\<rparr>) else None)
      | _ \<Rightarrow> None)"
| "act X ReaderSleepDone s =
     (if readerPc s = RSleep then Some (s\<lparr>readerPc := RSelect\<rparr>) else None)"
| "act X (PublisherPublish r) s =
     (case publisherPc s of
        PPublish v \<Rightarrow>
          (if pub s then Some (emit (Published v r) (s\<lparr>publisherPc := PRange\<rparr>))
           else Some (s\<lparr>outcome := Panicked NilDereference\<rparr>))
      | _ \<Rightarrow> None)"
| "act X PublisherRangeEnd s =
     (if publisherPc s = PRange \<and> votesClosed s
      then Some (say ''Publisher: Stoppeing'' (s\<lparr>publisherPc := PStopping\<rparr>))
      else None)"
| "act X PublisherStop s =
     (if publisherPc s = PStopping
      then (if pub s then Some (say ''Publisher: Stopped'' (s\<lparr>publisherPc := PSignal\<rparr>))
            else Some (s\<lparr>outcome := Panicked NilDereference\<rparr>))
      else None)"
| "act X PublisherSendStopped s =
     (if publisherPc s = PSignal \<and> publisherStoppedChan s = 0
      then Some (emit PublisherStopped (s\<lparr>publisherPc := PDone, publisherStoppedChan := 1\<rparr>))
      else None)"

text \<open>Nothing runs once the process has ended.\<close>

definition step :: "extern \<Rightarrow> action \<Rightarrow> sys \<Rightarrow> sys option" where
  "step X a s = (if outcome s = Running then act X a s else None)"

fun run :: "extern \<Rightarrow> action list \<Rightarrow> sys \<Rightarrow> sys option" where
  "run X [] s = Some s"
| "run X (a # as) s = (case step X a s of None \<Rightarrow> None | Some s' \<Rightarrow> run X as s')"

text \<open>The library functions used in the concrete runs.\<close>

definition testExtern :: extern where
  "testExtern = \<lparr>ToLower = asciiToLower,
                  AuthorizationHeader = (\<lambda>c t m u q n. ''OAuth oauth_nonce='' @ n)\<rparr>"

subsection \<open>Reading a history\<close>

text \<open>
  \<open>precedes a b h\<close>: scanning \<open>h\<close> in order, \<open>a\<close> is met before the first \<open>b\<close>, or
  \<open>b\<close> never occurs. \<open>afterStop h\<close> is what follows the first \<open>StopSet\<close>.
\<close>

fun precedes :: "event \<Rightarrow> event \<Rightarrow> event list \<Rightarrow> bool" where
  "precedes a b [] = True"
| "precedes a b (e # es) = (if e = b then False else if e = a then True else precedes a b es)"

fun afterStop :: "event list \<Rightarrow> event list" where
  "afterStop [] = []"
| "afterStop (e # es) = (if e = StopSet then es else afterStop es)"

definition matchedOf :: "event list \<Rightarrow> string list" where
  "matchedOf h = concat (map (\<lambda>e. case e of Matched v \<Rightarrow> [v] | _ \<Rightarrow> []) h)"

definition sentOf :: "event list \<Rightarrow> string list" where
  "sentOf h = concat (map (\<lambda>e. case e of Sent v \<Rightarrow> [v] | _ \<Rightarrow> []) h)"

definition publishedOf :: "event list \<Rightarrow> string list" where
  "publishedOf h = concat (map (\<lambda>e. case e of Published v r \<Rightarrow> [v] | _ \<Rightarrow> []) h)"

definition authSetupsOf :: "event list \<Rightarrow> err option list" where
  "authSetupsOf h = concat (map (\<lambda>e. case e of AuthSetup r \<Rightarrow> [r] | _ \<Rightarrow> []) h)"

section \<open>Facts about the string functions\<close>

lemma HasPrefix_prefix: "HasPrefix s p = prefix p s"
  by (induction s p rule: HasPrefix.induct) auto

lemma IndexFrom_lower_bound: "0 \<le> i \<Longrightarrow> IndexFrom i s sub = -1 \<or> i \<le> IndexFrom i s sub"
proof (induction s arbitrary: i)
  case Nil
  then show ?case by simp
next
  case (Cons x xs)
  from Cons.IH [of "i + 1"] Cons.prems show ?case by auto
qed

lemma IndexFrom_found: "0 \<le> i \<Longrightarrow> (0 \<le> IndexFrom i s sub) = sublist sub s"
proof (induction s arbitrary: i)
  case Nil
  then show ?case by (cases sub) auto
next
  case (Cons x xs)
  show ?case
  proof (cases "HasPrefix (x # xs) sub")
    case True
    then show ?thesis using Cons.prems
      by (simp add: HasPrefix_prefix)
  next
    case False
    then have "\<not> prefix sub (x # xs)" by (simp add: HasPrefix_prefix)
    with False Cons.IH [of "i + 1"] Cons.prems show ?thesis
      by (simp add: sublist_Cons_right)
  qed
qed

lemma Contains_sublist: "Contains s sub = sublist sub s"
  by (simp add: Contains_def Index_def IndexFrom_found)

lemma Contains_occursIn: "Contains (lower text) (lower t) = occursIn lower text t"
  by (simp add: Contains_sublist sublist_def occursIn_def)

lemma rangeOptions_filter:
  "rangeOptions lower text F votes = votes @ filter (occursIn lower text) F"
  by (induction F arbitrary: votes) (simp_all add: Contains_occursIn)

lemma connsOf_append: "connsOf (xs @ ys) = connsOf xs @ connsOf ys"
  by (induction xs rule: connsOf.induct) simp_all

section \<open>Claims\<close>

text \<open>
  C1. For every list of filter terms \<open>F\<close> (in any order, with duplicates, or
  empty) and every decoded record text, the votes sent for that record are exactly
  the terms of \<open>F\<close> whose lower-cased form occurs inside the lower-cased text, each
  sent as the term itself, once per position in \<open>F\<close>; so their number is the number
  of matching positions of \<open>F\<close>, and no vote is sent when no term matches.
\<close>

theorem C1_one_vote_per_matching_term:
  "rangeOptions lower text F [] = filter (occursIn lower text) F
   \<and> length (rangeOptions lower text F []) = length (filter (occursIn lower text) F)
   \<and> (\<forall>t. count_list (rangeOptions lower text F []) t
          = (if occursIn lower text t then count_list F t else 0))
   \<and> ((\<forall>t \<in> set F. \<not> occursIn lower text t) \<longrightarrow> rangeOptions lower text F [] = [])"
proof -
  have eq: "rangeOptions lower text F [] = filter (occursIn lower text) F"
    by (simp add: rangeOptions_filter)
  have cnt: "count_list (filter P F) t = (if P t then count_list F t else 0)" for P and t :: string
    by (induction F) auto
  show ?thesis
    unfolding eq by (auto simp: cnt filter_empty_conv)
qed

theorem C1_witness:
  "filter (occursIn asciiToLower ''I love Cats and dogs'') [''cats'', ''DOGS'', ''cats'', ''bird'']
     = [''cats'', ''DOGS'', ''cats'']
   \<and> \<not> occursIn asciiToLower ''no pets here'' ''cats''
   \<and> \<not> occursIn asciiToLower ''no pets here'' ''dogs''
   \<and> rangeOptions asciiToLower ''no pets here'' [''cats'', ''dogs''] [] = []"
proof -
  have a: "rangeOptions asciiToLower ''I love Cats and dogs'' [''cats'', ''DOGS'', ''cats'', ''bird''] []
             = [''cats'', ''DOGS'', ''cats'']"
    by code_simp
  have b: "rangeOptions asciiToLower ''no pets here'' [''cats'', ''dogs''] [] = []"
    by code_simp
  have f1: "filter (occursIn asciiToLower ''I love Cats and dogs'') [''cats'', ''DOGS'', ''cats'', ''bird'']
              = [''cats'', ''DOGS'', ''cats'']"
    using C1_one_vote_per_matching_term
            [of asciiToLower "''I love Cats and dogs''" "[''cats'', ''DOGS'', ''cats'', ''bird'']", THEN conjunct1]
    by (simp only: a)
  have f2: "filter (occursIn asciiToLower ''no pets here'') [''cats'', ''dogs''] = []"
    using C1_one_vote_per_matching_term
            [of asciiToLower "''no pets here''" "[''cats'', ''dogs'']", THEN conjunct1]
    by (simp only: b)
  from f2 have f3: "\<forall>t \<in> set [''cats'', ''dogs'']. \<not> occursIn asciiToLower ''no pets here'' t"
    by (simp only: filter_empty_conv)
  from f3 have f4: "\<not> occursIn asciiToLower ''no pets here'' ''cats''
      \<and> \<not> occursIn asciiToLower ''no pets here'' ''dogs''"
    by simp
  from f1 f4 b show ?thesis by blast
qed

text \<open>
  C8. From every manager state, two calls of \<^verbatim>\<open>closeConn\<close> in a row both return
  normally (no panic; the function has no error result, and the errors of the
  \<^verbatim>\<open>Close\<close> calls are dropped), leaving both variables as they were; when no
  connection and no reader is tracked a call changes nothing at all.
\<close>

theorem C8_closeConn_twice_no_error:
  "\<exists>m1 m2. closeConn m = Inr m1 \<and> closeConn m1 = Inr m2
      \<and> conn m2 = conn m \<and> reader m2 = reader m
      \<and> (conn m = None \<and> reader m = None \<longrightarrow> m1 = m \<and> m2 = m)"
  by (cases "conn m"; cases "reader m")
     (simp_all add: closeConn_def conn_Close_def reader_Close_def)

theorem C8_witness:
  "closeConn \<lparr>conn = None, reader = None, closeCalls = []\<rparr>
     = Inr \<lparr>conn = None, reader = None, closeCalls = []\<rparr>
   \<and> (\<exists>m1. closeConn \<lparr>conn = Some 3, reader = None, closeCalls = []\<rparr> = Inr m1
          \<and> closeConn m1 = Inr \<lparr>conn = Some 3, reader = None, closeCalls = [Conn 3, Conn 3]\<rparr>)"
proof -
  from C8_closeConn_twice_no_error [of "\<lparr>conn = None, reader = None, closeCalls = []\<rparr>"]
  have a: "closeConn \<lparr>conn = None, reader = None, closeCalls = []\<rparr>
             = Inr \<lparr>conn = None, reader = None, closeCalls = []\<rparr>"
    by auto
  have b: "\<exists>m1. closeConn \<lparr>conn = Some 3, reader = None, closeCalls = []\<rparr> = Inr m1
          \<and> closeConn m1 = Inr \<lparr>conn = Some 3, reader = None, closeCalls = [Conn 3, Conn 3]\<rparr>"
    by (simp add: closeConn_def conn_Close_def)
  from a b show ?thesis by blast
qed

text \<open>
  C10. Every call of \<^verbatim>\<open>dial\<close> first closes the tracked connection, if there is one,
  and clears the variable, before the connection attempt is made. When the attempt
  fails, \<^verbatim>\<open>dial\<close> returns \<^verbatim>\<open>nil\<close> and the error, no connection is tracked, and a
  following \<^verbatim>\<open>closeConn\<close> calls \<^verbatim>\<open>Close\<close> on no connection. When it succeeds the
  new connection is tracked and returned.
\<close>

theorem C10_dial_retires_then_tracks:
  "\<exists>m1. dialBegin m = Inr m1 \<and> conn m1 = None
      \<and> closeCalls m1 = closeCalls m @ (case conn m of None \<Rightarrow> [] | Some k \<Rightarrow> [Conn k])
      \<and> dial attempt m = Inr (dialEnd attempt m1)
      \<and> (\<forall>e. attempt = Inl e \<longrightarrow>
            dial attempt m = Inr ((None, Some e), m1)
            \<and> (\<exists>m2. closeConn m1 = Inr m2 \<and> connsOf (closeCalls m2) = connsOf (closeCalls m1)))
      \<and> (\<forall>netc. attempt = Inr netc \<longrightarrow>
            dial attempt m = Inr ((Some netc, None), m1\<lparr>conn := Some netc\<rparr>))"
proof (cases "conn m")
  case None
  then show ?thesis
    by (cases "reader m")
       (auto simp: dialBegin_def dial_def dialEnd_def closeConn_def reader_Close_def
                   connsOf_append)
next
  case (Some k)
  then show ?thesis
    by (cases "reader m")
       (auto simp: dialBegin_def dial_def dialEnd_def closeConn_def conn_Close_def
                   reader_Close_def connsOf_append)
qed

theorem C10_witness:
  "dial (Inl ''i/o timeout'') \<lparr>conn = Some 3, reader = None, closeCalls = []\<rparr>
     = Inr ((None, Some ''i/o timeout''), \<lparr>conn = None, reader = None, closeCalls = [Conn 3]\<rparr>)
   \<and> closeConn \<lparr>conn = None, reader = None, closeCalls = [Conn 3]\<rparr>
     = Inr \<lparr>conn = None, reader = None, closeCalls = [Conn 3]\<rparr>
   \<and> dial (Inr 4) \<lparr>conn = Some 3, reader = None, closeCalls = []\<rparr>
     = Inr ((Some 4, None), \<lparr>conn = Some 4, reader = None, closeCalls = [Conn 3]\<rparr>)"
proof -
  have b: "dialBegin \<lparr>conn = Some 3, reader = None, closeCalls = []\<rparr>
             = Inr \<lparr>conn = None, reader = None, closeCalls = [Conn 3]\<rparr>"
    by (simp add: dialBegin_def conn_Close_def)
  from C10_dial_retires_then_tracks
         [of "\<lparr>conn = Some 3, reader = None, closeCalls = []\<rparr>" "Inl ''i/o timeout''"] b
  have f: "dial (Inl ''i/o timeout'') \<lparr>conn = Some 3, reader = None, closeCalls = []\<rparr>
     = Inr ((None, Some ''i/o timeout''), \<lparr>conn = None, reader = None, closeCalls = [Conn 3]\<rparr>)"
    by auto
  from C10_dial_retires_then_tracks
         [of "\<lparr>conn = Some 3, reader = None, closeCalls = []\<rparr>" "Inr 4"] b
  have g: "dial (Inr 4) \<lparr>conn = Some 3, reader = None, closeCalls = []\<rparr>
     = Inr ((Some 4, None), \<lparr>conn = Some 4, reader = None, closeCalls = [Conn 3]\<rparr>)"
    by auto
  have h: "closeConn \<lparr>conn = None, reader = None, closeCalls = [Conn 3]\<rparr>
     = Inr \<lparr>conn = None, reader = None, closeCalls = [Conn 3]\<rparr>"
    by (simp add: closeConn_def)
  from f g h show ?thesis by blast
qed

end
